theory Spec2Isabelle
  imports Main "HOL-Library.Word"
begin

section \<open>The native world seen by the JNI glue layer\<close>

text \<open>
  The two source files are JNI entry points: each one converts its arguments, makes a
  short sequence of calls into the JNI environment and into the native SDK, and returns.
  The embedding threads an explicit state through every entry point. The state holds the
  native heap (which addresses hold a live object, and which object), the addresses whose
  object has been deleted and not allocated again, and the trace of the calls the entry
  points made, in program order. A handle is a \<open>jlong\<close>; a pointer
  is the handle's value, and the null pointer is the handle \<open>0\<close>.
\<close>

type_synonym jlong = "64 word"

text \<open>A managed (Java) object is known to this layer only by its identity.\<close>

type_synonym jobject = nat

text \<open>
  \<open>TSCOptions\<close> is written through \<open>options[key] = value\<close>: a dictionary from
  strings to strings.
\<close>

type_synonym TSCOptions = "string \<rightharpoonup> string"

datatype log_module = kTSCoreLogModulePlatform | kTSCoreLogModuleSignalSDK

datatype log_level = kTSCoreLogLevelDebug | kTSCoreLogLevelError

text \<open>
  The objects the handles of this layer point to. Endpoints, endpoint observers,
  sessions and rooms belong to the native SDK and are known by identity only. A
  \<open>TSCEndpointPtr\<close> is a heap-allocated shared pointer, empty (\<open>None\<close>) or
  holding an endpoint. An observer adapter wraps a managed listener and carries its
  "observer deleted" mark.
\<close>

datatype obj =
    AccessManager string
  | TSCEndpointObserverPtr nat
  | TSCEndpointPtr "nat option"
  | TSCSessionPtr nat
  | RoomContext nat
  | AndroidRoomObserver jobject bool
  | AndroidStatsObserver jobject bool

text \<open>The calls an entry point makes, as a stub JNI environment and a stub SDK record them.\<close>

datatype event =
    Log log_module log_level string
  | LogDebug string
  | JniGetArrayLength
  | JniGetObjectArrayElement nat
  | JniDeleteLocalRef nat
  | JniCallGetNativeHandle
  | AccessManagerGetToken jlong
  | NewEndpointPtr jlong
  | SdkCreateEndpoint TSCOptions jlong nat
  | SdkDestroyEndpoint "nat option"
  | EndpointPtrReset jlong
  | DeleteEndpointPtr jlong
  | RegisterEndpoint nat bool bool
  | UnregisterEndpoint nat
  | RejectSession nat nat
  | RoomDisconnect nat
  | RoomGetStats nat jlong
  | DeleteRoomContext jlong
  | NewAndroidRoomObserver jlong jobject
  | NewAndroidStatsObserver jlong jobject
  | SetObserverDeleted jlong
  | DeleteObserver jlong

record native =
  heap :: "jlong \<rightharpoonup> obj"
  freed :: "jlong set"
  trace :: "event list"

text \<open>
  How a call ends. \<open>Returns\<close> is the normal return. \<open>Fails\<close> is everything
  else: the JNI environment raising \<open>ArrayIndexOutOfBoundsException\<close> for an index
  outside the array, the dereference of a null pointer, the dereference of a pointer to
  an object that has been deleted, and the dereference of any other non-null pointer that
  is not the address of a live object of the expected type. The call is modelled up to
  that point and no further.
\<close>

datatype failure =
    ArrayIndexOutOfBoundsException nat
  | NullPointerDereference
  | UseAfterFree jlong
  | InvalidPointer jlong

datatype 'a outcome = Returns 'a | Fails failure

definition emit :: "event \<Rightarrow> native \<Rightarrow> native" where
  "emit e s = s\<lparr>trace := trace s @ [e]\<rparr>"

definition TS_CORE_LOG_MODULE :: "log_module \<Rightarrow> log_level \<Rightarrow> string \<Rightarrow> native \<Rightarrow> native" where
  "TS_CORE_LOG_MODULE m l msg s = emit (Log m l msg) s"

definition TS_CORE_LOG_DEBUG :: "string \<Rightarrow> native \<Rightarrow> native" where
  "TS_CORE_LOG_DEBUG msg s = emit (LogDebug msg) s"

text \<open>
  \<open>new\<close> placed the object at address \<open>p\<close>; a write through a pointer
  replaces the object there; \<open>delete\<close> ends its life.
\<close>

definition new_obj :: "jlong \<Rightarrow> obj \<Rightarrow> native \<Rightarrow> native" where
  "new_obj p ob s = s\<lparr>heap := (heap s)(p \<mapsto> ob), freed := freed s - {p}\<rparr>"

definition store_obj :: "jlong \<Rightarrow> obj \<Rightarrow> native \<Rightarrow> native" where
  "store_obj p ob s = s\<lparr>heap := (heap s)(p \<mapsto> ob)\<rparr>"

definition delete_obj :: "jlong \<Rightarrow> native \<Rightarrow> native" where
  "delete_obj p s = s\<lparr>heap := (heap s)(p := None), freed := insert p (freed s)\<rparr>"

definition bad_pointer :: "native \<Rightarrow> jlong \<Rightarrow> failure" where
  "bad_pointer s p = (if p \<in> freed s then UseAfterFree p else InvalidPointer p)"

text \<open>Typed reads of the heap: what \<open>reinterpret_cast\<close> followed by a dereference finds.\<close>

definition room_at :: "native \<Rightarrow> jlong \<Rightarrow> nat option" where
  "room_at s p = (case heap s p of Some (RoomContext r) \<Rightarrow> Some r | _ \<Rightarrow> None)"

definition room_observer_at :: "native \<Rightarrow> jlong \<Rightarrow> (jobject \<times> bool) option" where
  "room_observer_at s p =
     (case heap s p of Some (AndroidRoomObserver j d) \<Rightarrow> Some (j, d) | _ \<Rightarrow> None)"

definition stats_observer_at :: "native \<Rightarrow> jlong \<Rightarrow> (jobject \<times> bool) option" where
  "stats_observer_at s p =
     (case heap s p of Some (AndroidStatsObserver j d) \<Rightarrow> Some (j, d) | _ \<Rightarrow> None)"

definition endpoint_ptr_at :: "native \<Rightarrow> jlong \<Rightarrow> nat option option" where
  "endpoint_ptr_at s p = (case heap s p of Some (TSCEndpointPtr e) \<Rightarrow> Some e | _ \<Rightarrow> None)"

definition endpoint_observer_at :: "native \<Rightarrow> jlong \<Rightarrow> nat option" where
  "endpoint_observer_at s p =
     (case heap s p of Some (TSCEndpointObserverPtr ob) \<Rightarrow> Some ob | _ \<Rightarrow> None)"

definition session_at :: "native \<Rightarrow> jlong \<Rightarrow> nat option" where
  "session_at s p = (case heap s p of Some (TSCSessionPtr se) \<Rightarrow> Some se | _ \<Rightarrow> None)"

definition token_at :: "native \<Rightarrow> jlong \<Rightarrow> string option" where
  "token_at s p = (case heap s p of Some (AccessManager t) \<Rightarrow> Some t | _ \<Rightarrow> None)"

section \<open>com\_twilio\_video\_Room.cpp\<close>

text \<open>
  \<open>room_context->room->disconnect()\<close>, with no check of the handle before the
  dereference. The source has no branch on the handle: the first case below is what the
  dereference of the null pointer is in this model, the second what the dereference of a
  pointer to no live room context is.
\<close>

definition Room_nativeDisconnect :: "jlong \<Rightarrow> native \<Rightarrow> unit outcome \<times> native" where
  "Room_nativeDisconnect j_native_handle s =
     (let s1 = TS_CORE_LOG_MODULE kTSCoreLogModulePlatform kTSCoreLogLevelDebug
                 ''Java_com_twilio_video_Room_nativeDisconnect'' s
      in if j_native_handle = 0 then (Fails NullPointerDereference, s1)
         else (case room_at s1 j_native_handle of
                 None \<Rightarrow> (Fails (bad_pointer s1 j_native_handle), s1)
               | Some room \<Rightarrow> (Returns (), emit (RoomDisconnect room) s1)))"

text \<open>
  \<open>room_context->room->getStats(android_stats_observer)\<close>: the room context is
  dereferenced, the observer pointer is passed on as it is.
\<close>

definition Room_nativeGetStats :: "jlong \<Rightarrow> jlong \<Rightarrow> native \<Rightarrow> unit outcome \<times> native" where
  "Room_nativeGetStats j_native_room_context j_native_stats_observer s =
     (let s1 = TS_CORE_LOG_MODULE kTSCoreLogModulePlatform kTSCoreLogLevelDebug
                 ''Java_com_twilio_video_Room_nativeGetStats'' s
      in if j_native_room_context = 0 then (Fails NullPointerDereference, s1)
         else (case room_at s1 j_native_room_context of
                 None \<Rightarrow> (Fails (bad_pointer s1 j_native_room_context), s1)
               | Some room \<Rightarrow>
                   (Returns (), emit (RoomGetStats room j_native_stats_observer) s1)))"

definition Room_nativeRelease :: "jlong \<Rightarrow> native \<Rightarrow> unit outcome \<times> native" where
  "Room_nativeRelease j_native_handle s =
     (let s1 = TS_CORE_LOG_MODULE kTSCoreLogModulePlatform kTSCoreLogLevelDebug
                 ''Java_com_twilio_video_Room_nativeRelease'' s
      in if j_native_handle = 0 then (Returns (), s1)
         else (case room_at s1 j_native_handle of
                 None \<Rightarrow> (Fails (bad_pointer s1 j_native_handle), s1)
               | Some room \<Rightarrow>
                   (Returns (),
                    delete_obj j_native_handle (emit (DeleteRoomContext j_native_handle) s1))))"

text \<open>
  \<open>new AndroidRoomObserver(env, object)\<close>; the address \<open>p\<close> is the one
  \<open>new\<close> returned, and \<open>jlongFromPointer\<close> hands it back as the handle.
\<close>

definition InternalRoomListenerHandle_nativeCreate ::
  "jobject \<Rightarrow> jlong \<Rightarrow> native \<Rightarrow> jlong outcome \<times> native" where
  "InternalRoomListenerHandle_nativeCreate object p s =
     (let s1 = TS_CORE_LOG_MODULE kTSCoreLogModulePlatform kTSCoreLogLevelDebug
                 ''Create AndroidRoomObserver'' s;
          s2 = new_obj p (AndroidRoomObserver object False) (emit (NewAndroidRoomObserver p object) s1)
      in (Returns p, s2))"

definition InternalRoomListenerHandle_nativeRelease ::
  "jlong \<Rightarrow> native \<Rightarrow> unit outcome \<times> native" where
  "InternalRoomListenerHandle_nativeRelease nativeHandle s =
     (let s1 = TS_CORE_LOG_MODULE kTSCoreLogModulePlatform kTSCoreLogLevelDebug
                 ''Free AndroidRoomObserver'' s
      in if nativeHandle \<noteq> 0 then
           (case room_observer_at s1 nativeHandle of
              None \<Rightarrow> (Fails (bad_pointer s1 nativeHandle), s1)
            | Some (j, d) \<Rightarrow>
                (let s2 = store_obj nativeHandle (AndroidRoomObserver j True)
                            (emit (SetObserverDeleted nativeHandle) s1);
                     s3 = delete_obj nativeHandle (emit (DeleteObserver nativeHandle) s2)
                 in (Returns (), s3)))
         else (Returns (), s1))"

definition InternalStatsListenerHandle_nativeCreate ::
  "jobject \<Rightarrow> jlong \<Rightarrow> native \<Rightarrow> jlong outcome \<times> native" where
  "InternalStatsListenerHandle_nativeCreate object p s =
     (let s1 = TS_CORE_LOG_MODULE kTSCoreLogModulePlatform kTSCoreLogLevelDebug
                 ''Create AndroidStatsObserver'' s;
          s2 = new_obj p (AndroidStatsObserver object False) (emit (NewAndroidStatsObserver p object) s1)
      in (Returns p, s2))"

definition InternalStatsListenerHandle_nativeRelease ::
  "jlong \<Rightarrow> native \<Rightarrow> unit outcome \<times> native" where
  "InternalStatsListenerHandle_nativeRelease nativeHandle s =
     (let s1 = TS_CORE_LOG_MODULE kTSCoreLogModulePlatform kTSCoreLogLevelDebug
                 ''Free AndroidStatsObserver'' s
      in if nativeHandle \<noteq> 0 then
           (case stats_observer_at s1 nativeHandle of
              None \<Rightarrow> (Fails (bad_pointer s1 nativeHandle), s1)
            | Some (j, d) \<Rightarrow>
                (let s2 = store_obj nativeHandle (AndroidStatsObserver j True)
                            (emit (SetObserverDeleted nativeHandle) s1);
                     s3 = delete_obj nativeHandle (emit (DeleteObserver nativeHandle) s2)
                 in (Returns (), s3)))
         else (Returns (), s1))"

section \<open>com\_twilio\_conversations\_impl\_ConversationsClientImpl.cpp\<close>

text \<open>
  The managed access manager is the object whose \<open>getNativeHandle()\<close> the layer
  calls; the model keeps what that call returns. The option array is a Java
  \<open>String[]\<close>; \<open>JavaToStdString\<close> is the WebRTC helper that copies a
  managed string, and the model takes the elements as the strings they hold. The managed
  references themselves (the access manager object, the array, its elements) are non-null
  by their types here: what the JNI helpers do with a null reference is not part of these
  sources.
\<close>

datatype jaccess_manager = JAccessManager (getNativeHandle: jlong)

definition GetArrayLength :: "string list \<Rightarrow> native \<Rightarrow> nat \<times> native" where
  "GetArrayLength arr s = (length arr, emit JniGetArrayLength s)"

text \<open>
  \<open>GetObjectArrayElement\<close> raises \<open>ArrayIndexOutOfBoundsException\<close> when the
  index is not an index of the array.
\<close>

definition GetObjectArrayElement :: "string list \<Rightarrow> nat \<Rightarrow> native \<Rightarrow> string outcome \<times> native" where
  "GetObjectArrayElement arr i s =
     (let s1 = emit (JniGetObjectArrayElement i) s
      in if i < length arr then (Returns (arr ! i), s1)
         else (Fails (ArrayIndexOutOfBoundsException i), s1))"

text \<open>
  The loop of \<open>createEndpoint\<close> (\<open>while (i < size)\<close>): two reads and two
  increments in each round, then \<open>options[key] = value\<close>. The counters are C
  \<open>int\<close>s; a Java array has fewer than \<open>2^31\<close> elements and \<open>i\<close> never
  passes \<open>size + 1\<close>, so they are natural numbers here.
\<close>

function marshal_loop ::
  "string list \<Rightarrow> nat \<Rightarrow> nat \<Rightarrow> TSCOptions \<Rightarrow> native \<Rightarrow> TSCOptions outcome \<times> native" where
  "marshal_loop optionsArray sz i options s =
     (if i < sz then
        (case GetObjectArrayElement optionsArray i s of
           (Fails f, s1) \<Rightarrow> (Fails f, s1)
         | (Returns jKey, s1) \<Rightarrow>
             (case GetObjectArrayElement optionsArray (i + 1) s1 of
                (Fails f, s2) \<Rightarrow> (Fails f, s2)
              | (Returns jValue, s2) \<Rightarrow>
                  marshal_loop optionsArray sz (i + 2) (options(jKey \<mapsto> jValue))
                    (emit (JniDeleteLocalRef (i + 1)) (emit (JniDeleteLocalRef i) s2))))
      else (Returns options, s))"
  by pat_completeness auto
termination
  by (relation "measure (\<lambda>(a, sz, i, opts, s). sz - i)") auto

declare marshal_loop.simps [simp del]

text \<open>Lines 23 to 35: the empty \<open>TSCOptions\<close>, the array length, the loop.\<close>

definition marshal_options :: "string list \<Rightarrow> native \<Rightarrow> TSCOptions outcome \<times> native" where
  "marshal_options optionsArray s =
     (case GetArrayLength optionsArray s of
        (sz, s1) \<Rightarrow> marshal_loop optionsArray sz 0 Map.empty s1)"

definition getNativeAccessMgrFromJava :: "jaccess_manager \<Rightarrow> native \<Rightarrow> jlong \<times> native" where
  "getNativeAccessMgrFromJava j_accessMgr s =
     (getNativeHandle j_accessMgr, emit JniCallGetNativeHandle s)"

text \<open>
  \<open>accessManager->getToken()\<close> on a pointer already known to be non-null.
\<close>

definition getToken :: "jlong \<Rightarrow> native \<Rightarrow> string outcome \<times> native" where
  "getToken accessManager s =
     (case token_at s accessManager of
        None \<Rightarrow> (Fails (bad_pointer s accessManager), s)
      | Some t \<Rightarrow> (Returns t, emit (AccessManagerGetToken accessManager) s))"

text \<open>
  Lines 57 to 60, after the three checks. \<open>p\<close> is the address \<open>new\<close>
  returned for the \<open>TSCEndpointPtr\<close> and \<open>created\<close> is the shared pointer the
  SDK factory returned: both are answers of the environment.
\<close>

definition forward_to_factory ::
  "TSCOptions \<Rightarrow> jlong \<Rightarrow> jlong \<Rightarrow> jlong \<Rightarrow> nat option \<Rightarrow> native \<Rightarrow> jlong outcome \<times> native" where
  "forward_to_factory options accessManager nativeEndpointObserver p created s =
     (let s1 = new_obj p (TSCEndpointPtr None) (emit (NewEndpointPtr p) s)
      in case endpoint_observer_at s1 nativeEndpointObserver of
           None \<Rightarrow> (Fails (bad_pointer s1 nativeEndpointObserver), s1)
         | Some ob \<Rightarrow>
             (let s2 = emit (SdkCreateEndpoint options accessManager ob) s1;
                  s3 = store_obj p (TSCEndpointPtr created) s2
              in (Returns p, s3)))"

definition createEndpoint ::
  "jaccess_manager \<Rightarrow> string list \<Rightarrow> jlong \<Rightarrow> jlong \<Rightarrow> nat option \<Rightarrow> native
     \<Rightarrow> jlong outcome \<times> native" where
  "createEndpoint j_accessMgr optionsArray nativeEndpointObserver p created s =
     (let s0 = TS_CORE_LOG_MODULE kTSCoreLogModuleSignalSDK kTSCoreLogLevelDebug
                 ''createEndpoint'' s
      in case marshal_options optionsArray s0 of
           (Fails f, s1) \<Rightarrow> (Fails f, s1)
         | (Returns options, s1) \<Rightarrow>
             if nativeEndpointObserver = 0 then
               (Returns 0, TS_CORE_LOG_MODULE kTSCoreLogModuleSignalSDK kTSCoreLogLevelError
                             ''nativeEndpointObserver is null'' s1)
             else
               (case getNativeAccessMgrFromJava j_accessMgr s1 of
                  (accessManager, s2) \<Rightarrow>
                    if accessManager = 0 then
                      (Returns 0, TS_CORE_LOG_MODULE kTSCoreLogModuleSignalSDK
                                    kTSCoreLogLevelError ''AccessManager is null'' s2)
                    else
                      (case getToken accessManager s2 of
                         (Fails f, s3) \<Rightarrow> (Fails f, s3)
                       | (Returns token, s3) \<Rightarrow>
                           if token = [] then
                             (Returns 0, TS_CORE_LOG_MODULE kTSCoreLogModuleSignalSDK
                                           kTSCoreLogLevelError ''token is null'' s3)
                           else
                             (case getToken accessManager s3 of
                                (Fails f, s4) \<Rightarrow> (Fails f, s4)
                              | (Returns token', s4) \<Rightarrow>
                                  forward_to_factory options accessManager
                                    nativeEndpointObserver p created
                                    (TS_CORE_LOG_DEBUG (''access token is:'' @ token') s4)))))"

text \<open>
  \<open>reinterpret_cast<TSCEndpointPtr *>(nativeEndpoint)->get()\<close>: the holder is
  dereferenced, then the pointer it holds.
\<close>

definition endpoint_get :: "jlong \<Rightarrow> native \<Rightarrow> nat outcome" where
  "endpoint_get nativeEndpoint s =
     (if nativeEndpoint = 0 then Fails NullPointerDereference
      else case endpoint_ptr_at s nativeEndpoint of
             None \<Rightarrow> Fails (bad_pointer s nativeEndpoint)
           | Some None \<Rightarrow> Fails NullPointerDereference
           | Some (Some e) \<Rightarrow> Returns e)"

definition listen :: "jlong \<Rightarrow> native \<Rightarrow> unit outcome \<times> native" where
  "listen nativeEndpoint s =
     (let s1 = TS_CORE_LOG_MODULE kTSCoreLogModuleSignalSDK kTSCoreLogLevelDebug ''listen'' s
      in case endpoint_get nativeEndpoint s1 of
           Fails f \<Rightarrow> (Fails f, s1)
         | Returns e \<Rightarrow> (Returns (), emit (RegisterEndpoint e True True) s1))"

definition unlisten :: "jlong \<Rightarrow> native \<Rightarrow> unit outcome \<times> native" where
  "unlisten nativeEndpoint s =
     (let s1 = TS_CORE_LOG_MODULE kTSCoreLogModuleSignalSDK kTSCoreLogLevelDebug ''unlisten'' s
      in case endpoint_get nativeEndpoint s1 of
           Fails f \<Rightarrow> (Fails f, s1)
         | Returns e \<Rightarrow> (Returns (), emit (UnregisterEndpoint e) s1))"

definition reject :: "jlong \<Rightarrow> jlong \<Rightarrow> native \<Rightarrow> unit outcome \<times> native" where
  "reject nativeEndpoint nativeSession s =
     (let s1 = TS_CORE_LOG_MODULE kTSCoreLogModuleSignalSDK kTSCoreLogLevelDebug ''reject'' s
      in case endpoint_get nativeEndpoint s1 of
           Fails f \<Rightarrow> (Fails f, s1)
         | Returns e \<Rightarrow>
             if nativeSession = 0 then (Fails NullPointerDereference, s1)
             else (case session_at s1 nativeSession of
                     None \<Rightarrow> (Fails (bad_pointer s1 nativeSession), s1)
                   | Some se \<Rightarrow> (Returns (), emit (RejectSession e se) s1)))"

definition freeNativeHandle :: "jlong \<Rightarrow> native \<Rightarrow> unit outcome \<times> native" where
  "freeNativeHandle nativeEndpoint s =
     (let s1 = TS_CORE_LOG_MODULE kTSCoreLogModuleSignalSDK kTSCoreLogLevelDebug
                 ''freeNativeHandle'' s
      in if nativeEndpoint \<noteq> 0 then
           (case endpoint_ptr_at s1 nativeEndpoint of
              None \<Rightarrow> (Fails (bad_pointer s1 nativeEndpoint), s1)
            | Some e \<Rightarrow>
                (let s2 = emit (SdkDestroyEndpoint e) s1;
                     s3 = store_obj nativeEndpoint (TSCEndpointPtr None)
                            (emit (EndpointPtrReset nativeEndpoint) s2);
                     s4 = delete_obj nativeEndpoint (emit (DeleteEndpointPtr nativeEndpoint) s3)
                 in (Returns (), s4)))
         else (Returns (), s1))"

section \<open>Notions used in the statements\<close>

text \<open>
  The flattened array read the way the specification words it: the entry at an even index
  is a key, the entry after it is the key's value. A trailing entry without a partner
  is dropped.
\<close>

fun pairs :: "'a list \<Rightarrow> ('a \<times> 'a) list" where
  "pairs (k # v # rest) = (k, v) # pairs rest"
| "pairs _ = []"

text \<open>\<open>options[key] = value\<close> as a function of the pair.\<close>

definition assign :: "string \<times> string \<Rightarrow> TSCOptions \<Rightarrow> TSCOptions" where
  "assign kv m = m(fst kv \<mapsto> snd kv)"

text \<open>
  The JNI calls of \<open>k\<close> complete rounds of the marshalling loop that start at index
  \<open>i\<close>.
\<close>

fun loop_events :: "nat \<Rightarrow> nat \<Rightarrow> event list" where
  "loop_events i 0 = []"
| "loop_events i (Suc k) =
     [JniGetObjectArrayElement i, JniGetObjectArrayElement (i + 1),
      JniDeleteLocalRef i, JniDeleteLocalRef (i + 1)] @ loop_events (i + 2) k"

section \<open>Properties\<close>

lemmas native_calls =
  emit_def TS_CORE_LOG_MODULE_def TS_CORE_LOG_DEBUG_def new_obj_def store_obj_def delete_obj_def

subsection \<open>The marshalling loop\<close>

lemma drop_two:
  assumes "i + 2 \<le> length xs"
  shows "drop i xs = xs ! i # xs ! (i + 1) # drop (i + 2) xs"
proof -
  have "drop i xs = xs ! i # drop (Suc i) xs"
    using assms by (simp add: Cons_nth_drop_Suc)
  moreover have "drop (Suc i) xs = xs ! Suc i # drop (Suc (Suc i)) xs"
    using assms by (simp add: Cons_nth_drop_Suc)
  ultimately show ?thesis by simp
qed

lemma marshal_loop_even:
  "i + 2 * k = length arr \<Longrightarrow>
   marshal_loop arr (length arr) i opts s =
     (Returns (fold assign (pairs (drop i arr)) opts),
      s\<lparr>trace := trace s @ loop_events i k\<rparr>)"
proof (induction k arbitrary: i opts s)
  case 0
  then show ?case by (subst marshal_loop.simps) simp
next
  case (Suc k)
  have d: "drop i arr = arr ! i # arr ! (i + 1) # drop (i + 2) arr"
    using Suc.prems by (intro drop_two) simp
  have ih: "\<And>opts s. marshal_loop arr (length arr) (i + 2) opts s =
     (Returns (fold assign (pairs (drop (i + 2) arr)) opts),
      s\<lparr>trace := trace s @ loop_events (i + 2) k\<rparr>)"
    using Suc.prems by (intro Suc.IH) simp
  show ?case
    using Suc.prems
    by (subst marshal_loop.simps) (simp add: GetObjectArrayElement_def ih [simplified] d assign_def emit_def)
qed

lemma marshal_loop_odd:
  "i + 2 * k + 1 = length arr \<Longrightarrow>
   marshal_loop arr (length arr) i opts s =
     (Fails (ArrayIndexOutOfBoundsException (length arr)),
      s\<lparr>trace := trace s @ loop_events i k @
         [JniGetObjectArrayElement (length arr - 1), JniGetObjectArrayElement (length arr)]\<rparr>)"
proof (induction k arbitrary: i opts s)
  case 0
  then have "i < length arr" "\<not> i + 1 < length arr" "length arr = i + 1" by simp_all
  then show ?case
    by (subst marshal_loop.simps) (simp add: GetObjectArrayElement_def emit_def)
next
  case (Suc k)
  have ih: "\<And>opts s. marshal_loop arr (length arr) (i + 2) opts s =
     (Fails (ArrayIndexOutOfBoundsException (length arr)),
      s\<lparr>trace := trace s @ loop_events (i + 2) k @
         [JniGetObjectArrayElement (length arr - 1), JniGetObjectArrayElement (length arr)]\<rparr>)"
    using Suc.prems by (intro Suc.IH) simp
  show ?case
    using Suc.prems
    by (subst marshal_loop.simps) (simp add: GetObjectArrayElement_def ih [simplified] emit_def)
qed

lemma marshal_options_even:
  assumes "even (length arr)"
  shows "marshal_options arr s =
     (Returns (fold assign (pairs arr) Map.empty),
      s\<lparr>trace := trace s @ JniGetArrayLength # loop_events 0 (length arr div 2)\<rparr>)"
proof -
  have "0 + 2 * (length arr div 2) = length arr" using assms by simp
  from marshal_loop_even [OF this] show ?thesis
    by (simp add: marshal_options_def GetArrayLength_def emit_def)
qed

lemma marshal_options_odd:
  assumes "odd (length arr)"
  shows "marshal_options arr s =
     (Fails (ArrayIndexOutOfBoundsException (length arr)),
      s\<lparr>trace := trace s @ JniGetArrayLength # loop_events 0 (length arr div 2) @
         [JniGetObjectArrayElement (length arr - 1), JniGetObjectArrayElement (length arr)]\<rparr>)"
proof -
  have "0 + 2 * (length arr div 2) + 1 = length arr" using assms by simp
  from marshal_loop_odd [OF this] show ?thesis
    by (simp add: marshal_options_def GetArrayLength_def emit_def)
qed

lemma loop_events_reads:
  "JniGetObjectArrayElement j \<in> set (loop_events i k) \<Longrightarrow> j < i + 2 * k"
  by (induction i k rule: loop_events.induct) auto

lemma loop_events_no_factory:
  "SdkCreateEndpoint options am ob \<notin> set (loop_events i k)"
  by (induction i k rule: loop_events.induct) auto

lemma length_pairs: "length (pairs xs) = length xs div 2"
  by (induction xs rule: pairs.induct) auto

lemma nth_pairs: "j < length xs div 2 \<Longrightarrow> pairs xs ! j = (xs ! (2 * j), xs ! (2 * j + 1))"
proof (induction xs arbitrary: j rule: pairs.induct)
  case (1 k v rest)
  then show ?case by (cases j) auto
qed auto

lemma dom_fold_assign: "dom (fold assign ps m) = dom m \<union> fst ` set ps"
  by (induction ps arbitrary: m) (auto simp: assign_def)

lemma fold_assign_other: "k \<notin> fst ` set ps \<Longrightarrow> fold assign ps m k = m k"
  by (induction ps arbitrary: m) (auto simp: assign_def)

lemma fold_assign_last:
  "j < length ps \<Longrightarrow> \<forall>j'. j < j' \<and> j' < length ps \<longrightarrow> fst (ps ! j') \<noteq> fst (ps ! j) \<Longrightarrow>
   fold assign ps m (fst (ps ! j)) = Some (snd (ps ! j))"
proof (induction ps arbitrary: m j)
  case Nil
  then show ?case by simp
next
  case (Cons a ps)
  show ?case
  proof (cases j)
    case 0
    have "fst a \<notin> fst ` set ps"
    proof
      assume "fst a \<in> fst ` set ps"
      then obtain i where "i < length ps" "fst (ps ! i) = fst a"
        by (auto simp: in_set_conv_nth)
      with Cons.prems(2) 0 show False by (auto dest: spec [of _ "Suc i"])
    qed
    then have "fold assign ps (assign a m) (fst a) = assign a m (fst a)"
      by (rule fold_assign_other)
    also have "\<dots> = Some (snd a)" by (simp add: assign_def)
    finally show ?thesis using 0 by simp
  next
    case (Suc n)
    have "n < length ps" using Cons.prems(1) Suc by simp
    moreover have "\<forall>j'. n < j' \<and> j' < length ps \<longrightarrow> fst (ps ! j') \<noteq> fst (ps ! n)"
    proof (intro allI impI)
      fix j' assume "n < j' \<and> j' < length ps"
      with Cons.prems(2) Suc show "fst (ps ! j') \<noteq> fst (ps ! n)"
        by (auto dest: spec [of _ "Suc j'"])
    qed
    ultimately show ?thesis using Suc Cons.IH by simp
  qed
qed

lemma map_fst_pairs: "map fst (pairs xs) = map (\<lambda>j. xs ! (2 * j)) [0..<length xs div 2]"
  by (rule nth_equalityI) (simp_all add: length_pairs nth_pairs)

lemma keys_of_pairs: "fst ` set (pairs xs) = {xs ! (2 * j) | j. j < length xs div 2}"
proof -
  have "fst ` set (pairs xs) = set (map fst (pairs xs))" by simp
  also have "\<dots> = set (map (\<lambda>j. xs ! (2 * j)) [0..<length xs div 2])"
    by (simp only: map_fst_pairs)
  also have "\<dots> = {xs ! (2 * j) | j. j < length xs div 2}" by auto
  finally show ?thesis .
qed

subsection \<open>Create endpoint: validation failures\<close>

text \<open>
  Claim C1, as the code has it. The option array is marshalled before any check, so the
  claim needs the array to have even length (on an odd length the loop reads past the
  end and the call ends with \<open>ArrayIndexOutOfBoundsException\<close>, whatever the
  other arguments are). For every call with an option array of even length in which the
  observer handle is null, or the access-manager reference (the native
  \<open>AccessManager\<close> pointer read from the managed object) is null, or the access
  manager's token is the empty string: the call returns the handle \<open>0\<close> normally,
  the heap is unchanged, and the SDK factory is not called.
\<close>

theorem createEndpoint_validation_failure:
  assumes "even (length optionsArray)"
    and "nativeEndpointObserver = 0 \<or> getNativeHandle j_accessMgr = 0
         \<or> heap s (getNativeHandle j_accessMgr) = Some (AccessManager [])"
  shows "fst (createEndpoint j_accessMgr optionsArray nativeEndpointObserver p created s)
           = Returns 0
     \<and> heap (snd (createEndpoint j_accessMgr optionsArray nativeEndpointObserver p created s))
           = heap s
     \<and> freed (snd (createEndpoint j_accessMgr optionsArray nativeEndpointObserver p created s))
           = freed s
     \<and> (\<forall>options am ob. SdkCreateEndpoint options am ob \<notin> set (drop (length (trace s))
           (trace (snd (createEndpoint j_accessMgr optionsArray nativeEndpointObserver p
              created s)))))"
  using assms
  by (auto simp: createEndpoint_def marshal_options_even getNativeAccessMgrFromJava_def
      getToken_def token_at_def native_calls Let_def loop_events_no_factory)

theorem createEndpoint_validation_failure_witness:
  "fst (createEndpoint (JAccessManager 2) [''k'', ''v''] 3 1 (Some 7)
      \<lparr>heap = [2 \<mapsto> AccessManager [], 3 \<mapsto> TSCEndpointObserverPtr 4], freed = {}, trace = []\<rparr>)
     = Returns 0
   \<and> fst (createEndpoint (JAccessManager 2) [''k'', ''v''] 0 1 (Some 7)
      \<lparr>heap = [2 \<mapsto> AccessManager ''t'', 3 \<mapsto> TSCEndpointObserverPtr 4], freed = {}, trace = []\<rparr>)
     = Returns 0
   \<and> fst (createEndpoint (JAccessManager 0) [''k'', ''v''] 3 1 (Some 7)
      \<lparr>heap = [2 \<mapsto> AccessManager ''t'', 3 \<mapsto> TSCEndpointObserverPtr 4], freed = {}, trace = []\<rparr>)
     = Returns 0"
  using createEndpoint_validation_failure [of "[''k'', ''v'']" 3 "JAccessManager 2"
      "\<lparr>heap = [2 \<mapsto> AccessManager [], 3 \<mapsto> TSCEndpointObserverPtr 4], freed = {}, trace = []\<rparr>"
      1 "Some 7"]
    createEndpoint_validation_failure [of "[''k'', ''v'']" 0 "JAccessManager 2"
      "\<lparr>heap = [2 \<mapsto> AccessManager ''t'', 3 \<mapsto> TSCEndpointObserverPtr 4], freed = {}, trace = []\<rparr>"
      1 "Some 7"]
    createEndpoint_validation_failure [of "[''k'', ''v'']" 3 "JAccessManager 0"
      "\<lparr>heap = [2 \<mapsto> AccessManager ''t'', 3 \<mapsto> TSCEndpointObserverPtr 4], freed = {}, trace = []\<rparr>"
      1 "Some 7"]
  by simp

text \<open>
  The claim as stated (every call) fails on an array of odd length: with the one-element
  array and a null observer handle the call does not return \<open>0\<close>, it ends with the
  exception raised by the read at index \<open>1\<close>.
\<close>

theorem odd_options_null_observer_raises:
  "fst (createEndpoint (JAccessManager 0) [''k''] 0 1 None
      \<lparr>heap = Map.empty, freed = {}, trace = []\<rparr>)
     = Fails (ArrayIndexOutOfBoundsException 1)"
  by (simp add: createEndpoint_def marshal_options_def GetArrayLength_def marshal_loop.simps
      GetObjectArrayElement_def native_calls)

subsection \<open>The option mapping\<close>

text \<open>
  Claim C2, as the code has it. For every flattened option array of even length the
  marshalling returns a mapping whose keys are exactly the even-indexed entries; the
  value of a key is the entry that follows the key's last occurrence (last write wins);
  the mapping has one entry for each distinct key, so at most \<open>length div 2\<close>
  entries, and exactly \<open>length div 2\<close> if and only if the keys are pairwise distinct.
\<close>

theorem marshal_options_mapping:
  assumes "even (length optionsArray)"
  shows "\<exists>options. fst (marshal_options optionsArray s) = Returns options
     \<and> dom options = {optionsArray ! (2 * j) | j. j < length optionsArray div 2}
     \<and> (\<forall>j. j < length optionsArray div 2
           \<and> (\<forall>j'. j < j' \<and> j' < length optionsArray div 2
                  \<longrightarrow> optionsArray ! (2 * j') \<noteq> optionsArray ! (2 * j))
           \<longrightarrow> options (optionsArray ! (2 * j)) = Some (optionsArray ! (2 * j + 1)))
     \<and> card (dom options) \<le> length optionsArray div 2
     \<and> (card (dom options) = length optionsArray div 2
          \<longleftrightarrow> distinct (map (\<lambda>j. optionsArray ! (2 * j)) [0..<length optionsArray div 2]))"
proof -
  let ?ps = "pairs optionsArray"
  let ?m = "fold assign ?ps Map.empty"
  let ?n = "length optionsArray div 2"
  let ?ks = "map (\<lambda>j. optionsArray ! (2 * j)) [0..<?n]"
  have r: "fst (marshal_options optionsArray s) = Returns ?m"
    using assms by (simp add: marshal_options_even)
  have d: "dom ?m = {optionsArray ! (2 * j) | j. j < ?n}"
    by (simp add: dom_fold_assign keys_of_pairs)
  have ks: "dom ?m = set ?ks"
    by (simp add: dom_fold_assign map_fst_pairs [symmetric])
  have l: "\<forall>j. j < ?n \<and> (\<forall>j'. j < j' \<and> j' < ?n
               \<longrightarrow> optionsArray ! (2 * j') \<noteq> optionsArray ! (2 * j))
           \<longrightarrow> ?m (optionsArray ! (2 * j)) = Some (optionsArray ! (2 * j + 1))"
  proof (intro allI impI)
    fix j
    assume a: "j < ?n \<and> (\<forall>j'. j < j' \<and> j' < ?n
               \<longrightarrow> optionsArray ! (2 * j') \<noteq> optionsArray ! (2 * j))"
    then have j: "j < length ?ps" by (simp add: length_pairs)
    have "\<forall>j'. j < j' \<and> j' < length ?ps \<longrightarrow> fst (?ps ! j') \<noteq> fst (?ps ! j)"
      using a by (simp add: length_pairs nth_pairs)
    from fold_assign_last [OF j this, of Map.empty]
    show "?m (optionsArray ! (2 * j)) = Some (optionsArray ! (2 * j + 1))"
      using a by (simp add: nth_pairs)
  qed
  have c: "card (dom ?m) \<le> ?n"
    unfolding ks using card_length [of ?ks] by simp
  have e: "card (dom ?m) = ?n \<longleftrightarrow> distinct ?ks"
    unfolding ks using card_distinct [of ?ks] distinct_card [of ?ks] by auto
  from r d l c e show ?thesis by blast
qed


theorem marshal_options_mapping_witness:
  "\<exists>options. fst (marshal_options [''a'', ''1'', ''b'', ''2'']
        \<lparr>heap = Map.empty, freed = {}, trace = []\<rparr>) = Returns options
     \<and> options ''b'' = Some ''2'' \<and> card (dom options) \<le> 2"
proof -
  have "even (length [''a'', ''1'', ''b'', ''2''])" by simp
  from marshal_options_mapping [OF this, of "\<lparr>heap = Map.empty, freed = {}, trace = []\<rparr>"]
  obtain options where
    r: "fst (marshal_options [''a'', ''1'', ''b'', ''2'']
          \<lparr>heap = Map.empty, freed = {}, trace = []\<rparr>) = Returns options"
    and l: "\<forall>j. j < length [''a'', ''1'', ''b'', ''2''] div 2
           \<and> (\<forall>j'. j < j' \<and> j' < length [''a'', ''1'', ''b'', ''2''] div 2
                  \<longrightarrow> [''a'', ''1'', ''b'', ''2''] ! (2 * j') \<noteq> [''a'', ''1'', ''b'', ''2''] ! (2 * j))
           \<longrightarrow> options ([''a'', ''1'', ''b'', ''2''] ! (2 * j)) = Some ([''a'', ''1'', ''b'', ''2''] ! (2 * j + 1))"
    and c: "card (dom options) \<le> length [''a'', ''1'', ''b'', ''2''] div 2"
    by blast
  from l [rule_format, of 1] have "options ''b'' = Some ''2''" by simp
  with r c show ?thesis by simp
qed

text \<open>
  The claim as stated asks for exactly \<open>length div 2\<close> entries and for last write
  wins at once. With the key \<open>''a''\<close> written twice the array has length \<open>4\<close>
  and the mapping has one entry, not two.
\<close>

theorem duplicate_key_fewer_entries:
  "\<exists>options. fst (marshal_options [''a'', ''1'', ''a'', ''2'']
        \<lparr>heap = Map.empty, freed = {}, trace = []\<rparr>) = Returns options
     \<and> card (dom options) = 1 \<and> length [''a'', ''1'', ''a'', ''2''] div 2 = (2::nat)"
  by (simp add: marshal_options_def GetArrayLength_def marshal_loop.simps
      GetObjectArrayElement_def emit_def)

subsection \<open>Create, release, release again\<close>

lemma room_listener_create_release:
  fixes object :: jobject and p :: jlong and s :: native
  assumes "p \<noteq> 0"
  defines "s1 \<equiv> snd (InternalRoomListenerHandle_nativeCreate object p s)"
  defines "s2 \<equiv> snd (InternalRoomListenerHandle_nativeRelease p s1)"
  shows "fst (InternalRoomListenerHandle_nativeCreate object p s) = Returns p
     \<and> fst (InternalRoomListenerHandle_nativeRelease p s1) = Returns ()
     \<and> trace s2 = trace s1 @
         [Log kTSCoreLogModulePlatform kTSCoreLogLevelDebug ''Free AndroidRoomObserver'',
          SetObserverDeleted p, DeleteObserver p]
     \<and> heap s2 p = None
     \<and> fst (InternalRoomListenerHandle_nativeRelease p s2) = Fails (UseAfterFree p)"
  using assms(1) unfolding s1_def s2_def
  by (simp add: InternalRoomListenerHandle_nativeCreate_def
      InternalRoomListenerHandle_nativeRelease_def room_observer_at_def bad_pointer_def
      native_calls Let_def)

lemma stats_listener_create_release:
  fixes object :: jobject and p :: jlong and s :: native
  assumes "p \<noteq> 0"
  defines "s1 \<equiv> snd (InternalStatsListenerHandle_nativeCreate object p s)"
  defines "s2 \<equiv> snd (InternalStatsListenerHandle_nativeRelease p s1)"
  shows "fst (InternalStatsListenerHandle_nativeCreate object p s) = Returns p
     \<and> fst (InternalStatsListenerHandle_nativeRelease p s1) = Returns ()
     \<and> trace s2 = trace s1 @
         [Log kTSCoreLogModulePlatform kTSCoreLogLevelDebug ''Free AndroidStatsObserver'',
          SetObserverDeleted p, DeleteObserver p]
     \<and> heap s2 p = None
     \<and> fst (InternalStatsListenerHandle_nativeRelease p s2) = Fails (UseAfterFree p)"
  using assms(1) unfolding s1_def s2_def
  by (simp add: InternalStatsListenerHandle_nativeCreate_def
      InternalStatsListenerHandle_nativeRelease_def stats_observer_at_def bad_pointer_def
      native_calls Let_def)

lemma createEndpoint_success:
  assumes "even (length optionsArray)"
    and "nativeEndpointObserver \<noteq> 0"
    and "heap s nativeEndpointObserver = Some (TSCEndpointObserverPtr ob)"
    and "getNativeHandle j_accessMgr \<noteq> 0"
    and "heap s (getNativeHandle j_accessMgr) = Some (AccessManager token)"
    and "token \<noteq> []"
    and "heap s p = None"
  shows "createEndpoint j_accessMgr optionsArray nativeEndpointObserver p created s =
     (Returns p,
      s\<lparr>heap := (heap s)(p \<mapsto> TSCEndpointPtr created),
        freed := freed s - {p},
        trace := trace s @ [Log kTSCoreLogModuleSignalSDK kTSCoreLogLevelDebug ''createEndpoint'',
                       JniGetArrayLength]
              @ loop_events 0 (length optionsArray div 2)
              @ [JniCallGetNativeHandle, AccessManagerGetToken (getNativeHandle j_accessMgr),
                 AccessManagerGetToken (getNativeHandle j_accessMgr),
                 LogDebug (''access token is:'' @ token), NewEndpointPtr p,
                 SdkCreateEndpoint (fold assign (pairs optionsArray) Map.empty)
                   (getNativeHandle j_accessMgr) ob]\<rparr>)"
proof -
  have "p \<noteq> nativeEndpointObserver" using assms(3,7) by auto
  then show ?thesis
    using assms
    by (simp add: createEndpoint_def marshal_options_even getNativeAccessMgrFromJava_def
      getToken_def token_at_def forward_to_factory_def endpoint_observer_at_def
      native_calls Let_def)
qed

lemma endpoint_create_free:
  fixes j_accessMgr :: jaccess_manager and optionsArray :: "string list"
    and nativeEndpointObserver p :: jlong and created :: "nat option" and s :: native
  assumes "even (length optionsArray)"
    and "nativeEndpointObserver \<noteq> 0"
    and "heap s nativeEndpointObserver = Some (TSCEndpointObserverPtr ob)"
    and "getNativeHandle j_accessMgr \<noteq> 0"
    and "heap s (getNativeHandle j_accessMgr) = Some (AccessManager token)"
    and "token \<noteq> []"
    and "heap s p = None" and "p \<noteq> 0"
  defines "s1 \<equiv> snd (createEndpoint j_accessMgr optionsArray nativeEndpointObserver p created s)"
  defines "s2 \<equiv> snd (freeNativeHandle p s1)"
  shows "fst (createEndpoint j_accessMgr optionsArray nativeEndpointObserver p created s)
           = Returns p
     \<and> fst (freeNativeHandle p s1) = Returns ()
     \<and> trace s2 = trace s1 @
         [Log kTSCoreLogModuleSignalSDK kTSCoreLogLevelDebug ''freeNativeHandle'',
          SdkDestroyEndpoint created, EndpointPtrReset p, DeleteEndpointPtr p]
     \<and> heap s2 p = None
     \<and> fst (freeNativeHandle p s2) = Fails (UseAfterFree p)"
  unfolding s1_def s2_def createEndpoint_success [OF assms(1-7)]
  using assms(8)
  by (simp add: freeNativeHandle_def endpoint_ptr_at_def bad_pointer_def native_calls Let_def)

text \<open>
  Claim C3, as the code has it. Let \<open>p\<close> be the non-null address \<open>new\<close>
  returned. For each of the three create operations (room listener, stats listener, and
  endpoint when its arguments pass the checks) the handle returned is \<open>p\<close>, and
  the matching release of \<open>p\<close> returns normally after exactly one native destroy
  call (one \<open>delete\<close> of the observer; one \<open>destroyEndpoint\<close>, one reset and
  one \<open>delete\<close> of the endpoint holder), after which \<open>p\<close> holds no object.
  The layer keeps no record of released handles and checks a handle against null only:
  a second release of the same handle value is not guarded, it dereferences the deleted
  object again. Releasing at most once is left to the caller.
\<close>

theorem create_release_destroys_once:
  fixes object :: jobject and p :: jlong and s :: native
    and j_accessMgr :: jaccess_manager and optionsArray :: "string list"
    and nativeEndpointObserver :: jlong and created :: "nat option"
  defines "r1 \<equiv> snd (InternalRoomListenerHandle_nativeCreate object p s)"
  defines "r2 \<equiv> snd (InternalRoomListenerHandle_nativeRelease p r1)"
  defines "t1 \<equiv> snd (InternalStatsListenerHandle_nativeCreate object p s)"
  defines "t2 \<equiv> snd (InternalStatsListenerHandle_nativeRelease p t1)"
  defines "e1 \<equiv> snd (createEndpoint j_accessMgr optionsArray nativeEndpointObserver p created s)"
  defines "e2 \<equiv> snd (freeNativeHandle p e1)"
  assumes "p \<noteq> 0" and "heap s p = None"
  shows "fst (InternalRoomListenerHandle_nativeCreate object p s) = Returns p
     \<and> fst (InternalRoomListenerHandle_nativeRelease p r1) = Returns ()
     \<and> trace r2 = trace r1 @
         [Log kTSCoreLogModulePlatform kTSCoreLogLevelDebug ''Free AndroidRoomObserver'',
          SetObserverDeleted p, DeleteObserver p]
     \<and> heap r2 p = None
     \<and> fst (InternalRoomListenerHandle_nativeRelease p r2) = Fails (UseAfterFree p)
     \<and> fst (InternalStatsListenerHandle_nativeCreate object p s) = Returns p
     \<and> fst (InternalStatsListenerHandle_nativeRelease p t1) = Returns ()
     \<and> trace t2 = trace t1 @
         [Log kTSCoreLogModulePlatform kTSCoreLogLevelDebug ''Free AndroidStatsObserver'',
          SetObserverDeleted p, DeleteObserver p]
     \<and> heap t2 p = None
     \<and> fst (InternalStatsListenerHandle_nativeRelease p t2) = Fails (UseAfterFree p)
     \<and> (even (length optionsArray) \<and> nativeEndpointObserver \<noteq> 0
          \<and> heap s nativeEndpointObserver = Some (TSCEndpointObserverPtr ob)
          \<and> getNativeHandle j_accessMgr \<noteq> 0
          \<and> heap s (getNativeHandle j_accessMgr) = Some (AccessManager token)
          \<and> token \<noteq> [] \<longrightarrow>
            fst (createEndpoint j_accessMgr optionsArray nativeEndpointObserver p created s)
              = Returns p
          \<and> fst (freeNativeHandle p e1) = Returns ()
          \<and> trace e2 = trace e1 @
              [Log kTSCoreLogModuleSignalSDK kTSCoreLogLevelDebug ''freeNativeHandle'',
               SdkDestroyEndpoint created, EndpointPtrReset p, DeleteEndpointPtr p]
          \<and> heap e2 p = None
          \<and> fst (freeNativeHandle p e2) = Fails (UseAfterFree p))"
proof -
  note room = room_listener_create_release [OF assms(7), of object s]
  note stats = stats_listener_create_release [OF assms(7), of object s]
  have endpoint: "fst (createEndpoint j_accessMgr optionsArray nativeEndpointObserver p created s)
              = Returns p
          \<and> fst (freeNativeHandle p e1) = Returns ()
          \<and> trace e2 = trace e1 @
              [Log kTSCoreLogModuleSignalSDK kTSCoreLogLevelDebug ''freeNativeHandle'',
               SdkDestroyEndpoint created, EndpointPtrReset p, DeleteEndpointPtr p]
          \<and> heap e2 p = None
          \<and> fst (freeNativeHandle p e2) = Fails (UseAfterFree p)"
    if "even (length optionsArray)" and "nativeEndpointObserver \<noteq> 0"
      and "heap s nativeEndpointObserver = Some (TSCEndpointObserverPtr ob)"
      and "getNativeHandle j_accessMgr \<noteq> 0"
      and "heap s (getNativeHandle j_accessMgr) = Some (AccessManager token)"
      and "token \<noteq> []"
    unfolding e1_def e2_def
    using endpoint_create_free [OF that assms(8) assms(7), of created] by simp
  show ?thesis
    unfolding r1_def r2_def t1_def t2_def
    using room stats endpoint by blast
qed

theorem create_release_destroys_once_witness:
  "fst (InternalRoomListenerHandle_nativeRelease 1
          (snd (InternalRoomListenerHandle_nativeCreate 5 1
             \<lparr>heap = [2 \<mapsto> AccessManager ''t'', 3 \<mapsto> TSCEndpointObserverPtr 4],
              freed = {}, trace = []\<rparr>))) = Returns ()
   \<and> fst (InternalStatsListenerHandle_nativeRelease 1
          (snd (InternalStatsListenerHandle_nativeCreate 5 1
             \<lparr>heap = [2 \<mapsto> AccessManager ''t'', 3 \<mapsto> TSCEndpointObserverPtr 4],
              freed = {}, trace = []\<rparr>))) = Returns ()
   \<and> fst (createEndpoint (JAccessManager 2) [''k'', ''v''] 3 1 (Some 7)
             \<lparr>heap = [2 \<mapsto> AccessManager ''t'', 3 \<mapsto> TSCEndpointObserverPtr 4],
              freed = {}, trace = []\<rparr>) = Returns 1
   \<and> fst (freeNativeHandle 1
          (snd (createEndpoint (JAccessManager 2) [''k'', ''v''] 3 1 (Some 7)
             \<lparr>heap = [2 \<mapsto> AccessManager ''t'', 3 \<mapsto> TSCEndpointObserverPtr 4],
              freed = {}, trace = []\<rparr>))) = Returns ()
   \<and> fst (freeNativeHandle 1 (snd (freeNativeHandle 1
          (snd (createEndpoint (JAccessManager 2) [''k'', ''v''] 3 1 (Some 7)
             \<lparr>heap = [2 \<mapsto> AccessManager ''t'', 3 \<mapsto> TSCEndpointObserverPtr 4],
              freed = {}, trace = []\<rparr>))))) = Fails (UseAfterFree 1)"
  using create_release_destroys_once [where p = 1 and object = 5
      and s = "\<lparr>heap = [2 \<mapsto> AccessManager ''t'', 3 \<mapsto> TSCEndpointObserverPtr 4],
        freed = {}, trace = []\<rparr>"
      and optionsArray = "[''k'', ''v'']" and nativeEndpointObserver = 3 and ob = 4
      and j_accessMgr = "JAccessManager 2" and token = "''t''" and created = "Some 7"]
  by simp

text \<open>
  The claim as stated says that a second release with the same, already freed handle
  does not free twice. A room listener created at address \<open>1\<close> and released twice:
  the second release does not return, it runs into the object the first release deleted.
\<close>

theorem second_release_uses_freed_handle:
  "fst (InternalRoomListenerHandle_nativeRelease 1
     (snd (InternalRoomListenerHandle_nativeRelease 1
        (snd (InternalRoomListenerHandle_nativeCreate 5 1
           \<lparr>heap = Map.empty, freed = {}, trace = []\<rparr>)))))
   = Fails (UseAfterFree 1)"
  by (simp add: InternalRoomListenerHandle_nativeCreate_def
      InternalRoomListenerHandle_nativeRelease_def room_observer_at_def bad_pointer_def
      native_calls Let_def)

subsection \<open>Release and free on a null handle\<close>

text \<open>
  Claim C4. Each of the four release operations (free endpoint, release room, release
  room listener, release stats listener), called with the handle \<open>0\<close>, returns
  normally and leaves the native world as it was but for its own debug log line: the
  heap and the set of freed addresses are unchanged and the trace gains no destroy, reset
  or delete call.
\<close>

theorem release_null_handle_noop:
  "freeNativeHandle 0 s =
     (Returns (), s\<lparr>trace := trace s @
        [Log kTSCoreLogModuleSignalSDK kTSCoreLogLevelDebug ''freeNativeHandle'']\<rparr>)
   \<and> Room_nativeRelease 0 s =
     (Returns (), s\<lparr>trace := trace s @
        [Log kTSCoreLogModulePlatform kTSCoreLogLevelDebug
           ''Java_com_twilio_video_Room_nativeRelease'']\<rparr>)
   \<and> InternalRoomListenerHandle_nativeRelease 0 s =
     (Returns (), s\<lparr>trace := trace s @
        [Log kTSCoreLogModulePlatform kTSCoreLogLevelDebug ''Free AndroidRoomObserver'']\<rparr>)
   \<and> InternalStatsListenerHandle_nativeRelease 0 s =
     (Returns (), s\<lparr>trace := trace s @
        [Log kTSCoreLogModulePlatform kTSCoreLogLevelDebug ''Free AndroidStatsObserver'']\<rparr>)"
  by (simp add: freeNativeHandle_def Room_nativeRelease_def
      InternalRoomListenerHandle_nativeRelease_def InternalStatsListenerHandle_nativeRelease_def
      native_calls)

subsection \<open>Mark deleted, then delete\<close>

text \<open>
  The order of the two calls inside the listener releases, which is the part of claim C5
  that a sequential model of this layer can state: on a non-null handle of a live adapter
  the release marks the adapter deleted and then deletes it, and makes no other call
  after its log line. When the SDK's own threads dispatch callbacks relative to that
  \<open>delete\<close> is outside these sources and outside a sequential model.
\<close>

lemma listener_release_marks_then_deletes:
  assumes "nativeHandle \<noteq> 0"
  shows "(heap s nativeHandle = Some (AndroidRoomObserver j d) \<longrightarrow>
            fst (InternalRoomListenerHandle_nativeRelease nativeHandle s) = Returns ()
          \<and> trace (snd (InternalRoomListenerHandle_nativeRelease nativeHandle s)) =
              trace s @ [Log kTSCoreLogModulePlatform kTSCoreLogLevelDebug ''Free AndroidRoomObserver'',
                         SetObserverDeleted nativeHandle, DeleteObserver nativeHandle])
     \<and> (heap s nativeHandle = Some (AndroidStatsObserver j d) \<longrightarrow>
            fst (InternalStatsListenerHandle_nativeRelease nativeHandle s) = Returns ()
          \<and> trace (snd (InternalStatsListenerHandle_nativeRelease nativeHandle s)) =
              trace s @ [Log kTSCoreLogModulePlatform kTSCoreLogLevelDebug ''Free AndroidStatsObserver'',
                         SetObserverDeleted nativeHandle, DeleteObserver nativeHandle])"
  using assms
  by (simp add: InternalRoomListenerHandle_nativeRelease_def
      InternalStatsListenerHandle_nativeRelease_def room_observer_at_def stats_observer_at_def
      native_calls Let_def)

subsection \<open>Free endpoint\<close>

text \<open>
  Claim C6. Free endpoint with a non-null handle (the address of a live
  \<open>TSCEndpointPtr\<close> holding \<open>e\<close>) returns normally after exactly these calls,
  in this order: the SDK singleton is asked to destroy the endpoint \<open>e\<close>, the shared
  pointer is reset, the handle object is deleted. Afterwards the address holds no object.
\<close>

theorem freeNativeHandle_destroy_reset_delete:
  assumes "nativeEndpoint \<noteq> 0" and "heap s nativeEndpoint = Some (TSCEndpointPtr e)"
  shows "fst (freeNativeHandle nativeEndpoint s) = Returns ()
     \<and> trace (snd (freeNativeHandle nativeEndpoint s)) =
         trace s @ [Log kTSCoreLogModuleSignalSDK kTSCoreLogLevelDebug ''freeNativeHandle'',
                    SdkDestroyEndpoint e, EndpointPtrReset nativeEndpoint,
                    DeleteEndpointPtr nativeEndpoint]
     \<and> heap (snd (freeNativeHandle nativeEndpoint s)) = (heap s)(nativeEndpoint := None)"
  using assms by (simp add: freeNativeHandle_def endpoint_ptr_at_def native_calls Let_def)

theorem freeNativeHandle_destroy_reset_delete_witness:
  "fst (freeNativeHandle 1 \<lparr>heap = [1 \<mapsto> TSCEndpointPtr (Some 7)], freed = {}, trace = []\<rparr>)
     = Returns ()
   \<and> trace (snd (freeNativeHandle 1
        \<lparr>heap = [1 \<mapsto> TSCEndpointPtr (Some 7)], freed = {}, trace = []\<rparr>)) =
       [Log kTSCoreLogModuleSignalSDK kTSCoreLogLevelDebug ''freeNativeHandle'',
        SdkDestroyEndpoint (Some 7), EndpointPtrReset 1, DeleteEndpointPtr 1]"
  using freeNativeHandle_destroy_reset_delete
    [of 1 "\<lparr>heap = [1 \<mapsto> TSCEndpointPtr (Some 7)], freed = {}, trace = []\<rparr>" "Some 7"]
  by simp

subsection \<open>Create endpoint: marshalling comes first\<close>

text \<open>
  Claim C7, as the code has it. In \<open>createEndpoint\<close> the options mapping is
  constructed from the flattened array first, and the observer handle, the access manager
  and its token are checked afterwards. For an option array of even length, the trace of
  every call starts with the log line, the array length and all \<open>length div 2\<close>
  rounds of the loop; on each validation failure what follows is only the reads the check
  needed and its error log line. So on a validation failure the construction has already
  been performed in full (and its result is dropped).
\<close>

theorem createEndpoint_marshals_before_validating:
  assumes "even (length optionsArray)"
  shows "(\<exists>rest. trace (snd (createEndpoint j_accessMgr optionsArray nativeEndpointObserver p
              created s)) =
            trace s @ [Log kTSCoreLogModuleSignalSDK kTSCoreLogLevelDebug ''createEndpoint'',
                       JniGetArrayLength]
              @ loop_events 0 (length optionsArray div 2) @ rest)
     \<and> (nativeEndpointObserver = 0 \<longrightarrow>
          trace (snd (createEndpoint j_accessMgr optionsArray nativeEndpointObserver p
              created s)) =
            trace s @ [Log kTSCoreLogModuleSignalSDK kTSCoreLogLevelDebug ''createEndpoint'',
                       JniGetArrayLength]
              @ loop_events 0 (length optionsArray div 2)
              @ [Log kTSCoreLogModuleSignalSDK kTSCoreLogLevelError
                   ''nativeEndpointObserver is null''])
     \<and> (nativeEndpointObserver \<noteq> 0 \<and> getNativeHandle j_accessMgr = 0 \<longrightarrow>
          trace (snd (createEndpoint j_accessMgr optionsArray nativeEndpointObserver p
              created s)) =
            trace s @ [Log kTSCoreLogModuleSignalSDK kTSCoreLogLevelDebug ''createEndpoint'',
                       JniGetArrayLength]
              @ loop_events 0 (length optionsArray div 2)
              @ [JniCallGetNativeHandle,
                 Log kTSCoreLogModuleSignalSDK kTSCoreLogLevelError ''AccessManager is null''])
     \<and> (nativeEndpointObserver \<noteq> 0 \<and> getNativeHandle j_accessMgr \<noteq> 0
          \<and> heap s (getNativeHandle j_accessMgr) = Some (AccessManager []) \<longrightarrow>
          trace (snd (createEndpoint j_accessMgr optionsArray nativeEndpointObserver p
              created s)) =
            trace s @ [Log kTSCoreLogModuleSignalSDK kTSCoreLogLevelDebug ''createEndpoint'',
                       JniGetArrayLength]
              @ loop_events 0 (length optionsArray div 2)
              @ [JniCallGetNativeHandle, AccessManagerGetToken (getNativeHandle j_accessMgr),
                 Log kTSCoreLogModuleSignalSDK kTSCoreLogLevelError ''token is null''])"
  using assms
  by (auto simp: createEndpoint_def marshal_options_even getNativeAccessMgrFromJava_def
      getToken_def token_at_def forward_to_factory_def native_calls Let_def
      split: option.splits obj.splits)

theorem createEndpoint_marshals_before_validating_witness:
  "trace (snd (createEndpoint (JAccessManager 2) [''k'', ''v''] 3 1 (Some 7)
      \<lparr>heap = [2 \<mapsto> AccessManager [], 3 \<mapsto> TSCEndpointObserverPtr 4], freed = {}, trace = []\<rparr>))
   = [Log kTSCoreLogModuleSignalSDK kTSCoreLogLevelDebug ''createEndpoint'',
      JniGetArrayLength, JniGetObjectArrayElement 0, JniGetObjectArrayElement 1,
      JniDeleteLocalRef 0, JniDeleteLocalRef 1, JniCallGetNativeHandle,
      AccessManagerGetToken 2,
      Log kTSCoreLogModuleSignalSDK kTSCoreLogLevelError ''token is null'']"
  using createEndpoint_marshals_before_validating [of "[''k'', ''v'']" "JAccessManager 2" 3 1
      "Some 7"
      "\<lparr>heap = [2 \<mapsto> AccessManager [], 3 \<mapsto> TSCEndpointObserverPtr 4], freed = {}, trace = []\<rparr>"]
  by simp

text \<open>
  The claim as stated says the construction step is not performed on a validation
  failure. With a null observer handle and the array \<open>[''k'', ''v'']\<close> the call
  returns \<open>0\<close>, and its trace shows both array reads before the error log line.
\<close>

theorem null_observer_still_marshals:
  "createEndpoint (JAccessManager 0) [''k'', ''v''] 0 1 None
      \<lparr>heap = Map.empty, freed = {}, trace = []\<rparr> =
   (Returns 0, \<lparr>heap = Map.empty, freed = {}, trace =
      [Log kTSCoreLogModuleSignalSDK kTSCoreLogLevelDebug ''createEndpoint'',
       JniGetArrayLength, JniGetObjectArrayElement 0, JniGetObjectArrayElement 1,
       JniDeleteLocalRef 0, JniDeleteLocalRef 1,
       Log kTSCoreLogModuleSignalSDK kTSCoreLogLevelError ''nativeEndpointObserver is null'']\<rparr>)"
  by (simp add: createEndpoint_def marshal_options_def GetArrayLength_def marshal_loop.simps
      GetObjectArrayElement_def native_calls)

subsection \<open>Start listening\<close>

text \<open>
  Claim C8. Start listening with a valid endpoint handle (non-null, the address of a live
  \<open>TSCEndpointPtr\<close> that holds an endpoint \<open>e\<close>) makes one call after its log
  line, the native register call on \<open>e\<close> with both flags \<open>True\<close>, and returns
  normally; nothing else changes.
\<close>

theorem listen_registers_true_true:
  assumes "nativeEndpoint \<noteq> 0" and "heap s nativeEndpoint = Some (TSCEndpointPtr (Some e))"
  shows "listen nativeEndpoint s =
     (Returns (), s\<lparr>trace := trace s @
        [Log kTSCoreLogModuleSignalSDK kTSCoreLogLevelDebug ''listen'',
         RegisterEndpoint e True True]\<rparr>)"
  using assms by (simp add: listen_def endpoint_get_def endpoint_ptr_at_def native_calls Let_def)

theorem listen_registers_true_true_witness:
  "listen 1 \<lparr>heap = [1 \<mapsto> TSCEndpointPtr (Some 7)], freed = {}, trace = []\<rparr> =
     (Returns (), \<lparr>heap = [1 \<mapsto> TSCEndpointPtr (Some 7)], freed = {}, trace =
        [Log kTSCoreLogModuleSignalSDK kTSCoreLogLevelDebug ''listen'',
         RegisterEndpoint 7 True True]\<rparr>)"
  using listen_registers_true_true
    [of 1 "\<lparr>heap = [1 \<mapsto> TSCEndpointPtr (Some 7)], freed = {}, trace = []\<rparr>" 7]
  by simp

subsection \<open>Option arrays of odd length\<close>

text \<open>
  Claim C9. For every option array of odd length the last round of the marshalling loop
  reads the element at the index equal to the array length, one past the last valid
  index: that read is the last call of the trace, and it ends the marshalling, and with
  it \<open>createEndpoint\<close>, with \<open>ArrayIndexOutOfBoundsException\<close> at that
  index. For every array of even length the marshalling returns and every index it reads
  is below the length. Even length is the precondition for the loop to stay in bounds.
\<close>

theorem odd_length_reads_past_end:
  "(odd (length optionsArray) \<longrightarrow>
      fst (marshal_options optionsArray s)
        = Fails (ArrayIndexOutOfBoundsException (length optionsArray))
      \<and> last (trace (snd (marshal_options optionsArray s)))
        = JniGetObjectArrayElement (length optionsArray)
      \<and> fst (createEndpoint j_accessMgr optionsArray nativeEndpointObserver p created s)
        = Fails (ArrayIndexOutOfBoundsException (length optionsArray)))
   \<and> (even (length optionsArray) \<longrightarrow>
      (\<exists>options. fst (marshal_options optionsArray s) = Returns options)
      \<and> (\<forall>i. JniGetObjectArrayElement i
               \<in> set (drop (length (trace s)) (trace (snd (marshal_options optionsArray s))))
            \<longrightarrow> i < length optionsArray))"
proof (intro conjI impI)
  assume o: "odd (length optionsArray)"
  show "fst (marshal_options optionsArray s)
        = Fails (ArrayIndexOutOfBoundsException (length optionsArray))"
    using o by (simp add: marshal_options_odd)
  show "last (trace (snd (marshal_options optionsArray s)))
        = JniGetObjectArrayElement (length optionsArray)"
    using o by (simp add: marshal_options_odd)
  show "fst (createEndpoint j_accessMgr optionsArray nativeEndpointObserver p created s)
        = Fails (ArrayIndexOutOfBoundsException (length optionsArray))"
    using o by (simp add: createEndpoint_def marshal_options_odd Let_def)
next
  assume e: "even (length optionsArray)"
  show "\<exists>options. fst (marshal_options optionsArray s) = Returns options"
    using e by (simp add: marshal_options_even)
  show "\<forall>i. JniGetObjectArrayElement i
               \<in> set (drop (length (trace s)) (trace (snd (marshal_options optionsArray s))))
            \<longrightarrow> i < length optionsArray"
    using e by (auto simp: marshal_options_even dest: loop_events_reads)
qed

theorem odd_length_reads_past_end_witness:
  "fst (marshal_options [''k''] \<lparr>heap = Map.empty, freed = {}, trace = []\<rparr>)
     = Fails (ArrayIndexOutOfBoundsException 1)
   \<and> last (trace (snd (marshal_options [''k''] \<lparr>heap = Map.empty, freed = {}, trace = []\<rparr>)))
     = JniGetObjectArrayElement 1
   \<and> (\<exists>options. fst (marshal_options [''k'', ''v'']
         \<lparr>heap = Map.empty, freed = {}, trace = []\<rparr>) = Returns options)"
  using odd_length_reads_past_end
      [of "[''k'']" "\<lparr>heap = Map.empty, freed = {}, trace = []\<rparr>" "JAccessManager 0" 0 1 None]
    odd_length_reads_past_end
      [of "[''k'', ''v'']" "\<lparr>heap = Map.empty, freed = {}, trace = []\<rparr>" "JAccessManager 0" 0 1 None]
  by simp

subsection \<open>Disconnect and get stats dereference the room context unchecked\<close>

text \<open>
  Claim C10. Unlike release room, which returns normally on the handle \<open>0\<close>,
  disconnect room and get stats have no null check: on the handle \<open>0\<close> both end in
  the dereference of a null pointer. So whenever either returns normally the room-context
  handle was non-null, and on a non-null handle of a live room context both do return.
\<close>

theorem room_context_handle_unchecked:
  "fst (Room_nativeDisconnect 0 s) = Fails NullPointerDereference
   \<and> fst (Room_nativeGetStats 0 ob s) = Fails NullPointerDereference
   \<and> fst (Room_nativeRelease 0 s) = Returns ()
   \<and> (fst (Room_nativeDisconnect h s) = Returns () \<longrightarrow> h \<noteq> 0)
   \<and> (fst (Room_nativeGetStats h ob s) = Returns () \<longrightarrow> h \<noteq> 0)
   \<and> (h \<noteq> 0 \<and> heap s h = Some (RoomContext r) \<longrightarrow>
         fst (Room_nativeDisconnect h s) = Returns ()
         \<and> fst (Room_nativeGetStats h ob s) = Returns ())"
  by (auto simp: Room_nativeDisconnect_def Room_nativeGetStats_def Room_nativeRelease_def
      room_at_def native_calls)

theorem room_context_handle_unchecked_witness:
  "fst (Room_nativeDisconnect 1 \<lparr>heap = [1 \<mapsto> RoomContext 3], freed = {}, trace = []\<rparr>)
     = Returns ()
   \<and> fst (Room_nativeGetStats 1 2 \<lparr>heap = [1 \<mapsto> RoomContext 3], freed = {}, trace = []\<rparr>)
     = Returns ()
   \<and> fst (Room_nativeDisconnect 0 \<lparr>heap = [1 \<mapsto> RoomContext 3], freed = {}, trace = []\<rparr>)
     = Fails NullPointerDereference
   \<and> fst (Room_nativeGetStats 0 2 \<lparr>heap = [1 \<mapsto> RoomContext 3], freed = {}, trace = []\<rparr>)
     = Fails NullPointerDereference"
  using room_context_handle_unchecked
    [of "\<lparr>heap = [1 \<mapsto> RoomContext 3], freed = {}, trace = []\<rparr>" 2 1 3]
  by simp

end
